theory Spec2Isabelle
  imports Complex_Main "HOL-Library.Monad_Syntax"
begin

section \<open>Strings as the runtime sees them\<close>

text \<open>
  A string is a list of characters; the model covers the code units below 256. The white
  space of \<^verbatim>\<open>String.prototype.trim\<close> and of the regular-expression class \<^verbatim>\<open>\s\<close> in that
  range is TAB, LF, VT, FF, CR, SPACE and NBSP.
\<close>

definition isSpace :: "char \<Rightarrow> bool" where
  "isSpace c = (c \<in> set [CHR 0x09, CHR 0x0A, CHR 0x0B, CHR 0x0C, CHR 0x0D, CHR 0x20, CHR 0xA0])"

definition trimStart :: "string \<Rightarrow> string" where
  "trimStart s = dropWhile isSpace s"

definition trimEnd :: "string \<Rightarrow> string" where
  "trimEnd s = rev (dropWhile isSpace (rev s))"

definition trim :: "string \<Rightarrow> string" where
  "trim s = trimEnd (trimStart s)"

text \<open>\<^verbatim>\<open>toLowerCase\<close> on the code units below 256: A-Z and the accented capitals (not the
  multiplication sign) move up by 32.\<close>

definition lowerChar :: "char \<Rightarrow> char" where
  "lowerChar c =
     (let n = (of_char c :: nat)
      in if (65 \<le> n \<and> n \<le> 90) \<or> (192 \<le> n \<and> n \<le> 222 \<and> n \<noteq> 215)
         then char_of (n + 32) else c)"

definition toLowerCase :: "string \<Rightarrow> string" where
  "toLowerCase s = map lowerChar s"

definition startsWith :: "string \<Rightarrow> string \<Rightarrow> bool" where
  "startsWith p s = (take (length p) s = p)"

section \<open>types.ts: raw and executable actions\<close>

text \<open>
  The \<^verbatim>\<open>action\<close> field is a string in the declared type. The alias normalizer reads its
  table with \<^verbatim>\<open>map[norm]\<close>, and for the keys every object inherits the value read is an
  object, not a string: \<open>ProtoObj k\<close> stands for the object found under the inherited
  key \<open>k\<close>.
\<close>

datatype action_val = Str string | ProtoObj string

datatype SelectorType = SelCss | SelXpath | SelText | SelNone

text \<open>An optional field is \<open>None\<close> when it is \<^verbatim>\<open>undefined\<close> (or \<^verbatim>\<open>null\<close>, for the selector).\<close>

record RawLLMAction =
  action :: action_val
  selector :: "string option"
  selectorType :: "SelectorType option"
  timeout :: "rat option"
  duration :: "rat option"
  text' :: "string option"
  expectedContent :: "string option"
  reason :: "string option"
  url :: "string option"
  pattern :: "string option"

record PilotQAAIAction = RawLLMAction +
  normalizedAction :: action_val

datatype error =
    InvalidActionsArray
  | TypeError
  | MissingSelector action_val
  | MissingText string
  | NoActionsParsed

type_synonym ActionNormalizer = "RawLLMAction \<Rightarrow> error + RawLLMAction option"
type_synonym ActionValidator = "RawLLMAction \<Rightarrow> error + RawLLMAction"
type_synonym ActionMapper = "RawLLMAction \<Rightarrow> PilotQAAIAction option"

text \<open>JavaScript truthiness of an optional string: defined, not null and not empty.\<close>

definition truthy :: "string option \<Rightarrow> bool" where
  "truthy v = (case v of None \<Rightarrow> False | Some s \<Rightarrow> s \<noteq> [])"

definition noSelector :: "string list" where
  "noSelector = [''wait'', ''reload'', ''clearCache'', ''waitForNavigation'', ''waitForURL'']"

definition includesNoSelector :: "action_val \<Rightarrow> bool" where
  "includesNoSelector a = (case a of Str s \<Rightarrow> s \<in> set noSelector | ProtoObj k \<Rightarrow> False)"

section \<open>schemas.ts: the strict schema and selector-kind inference\<close>

text \<open>The value \<^verbatim>\<open>JSON.parse\<close> returns. An object is the list of its members.\<close>

datatype json =
    JNull
  | JBool bool
  | JNum rat
  | JStr string
  | JArr "json list"
  | JObj "(string \<times> json) list"










text \<open>The two anchored tests of \<^verbatim>\<open>coerceSelectorType\<close>, then the emptiness test, in the
  source's order.\<close>

definition inferSelectorType :: "string \<Rightarrow> SelectorType" where
  "inferSelectorType s =
     (if startsWith ''xpath='' s \<or> startsWith ''//'' s then SelXpath
      else if startsWith ''.'' s \<or> startsWith ''#'' s \<or> startsWith ''['' s \<or> startsWith '':'' s
        then SelCss
      else if s = [] then SelNone
      else SelText)"

definition coerceSelectorType :: "RawLLMAction \<Rightarrow> RawLLMAction" where
  "coerceSelectorType a =
     (case selectorType a of
        None \<Rightarrow>
          (let s = (if truthy (selector a) then the (selector a) else [])
           in a\<lparr>selectorType := Some (inferSelectorType s)\<rparr>)
      | Some t \<Rightarrow> a)"




text \<open>The selector kind as the specification words it: the empty selector first, then the
  two prefix families, then text.\<close>

definition selectorKindSpec :: "string \<Rightarrow> SelectorType" where
  "selectorKindSpec s =
     (if s = [] then SelNone
      else if startsWith ''xpath='' s \<or> startsWith ''//'' s then SelXpath
      else if hd s \<in> set ''.#[:'' then SelCss
      else SelText)"

section \<open>normalizers.ts, validators.ts, mappers.ts\<close>

definition aliasMap :: "(string \<times> string) list" where
  "aliasMap =
     [(''press'', ''click''),
      (''tap'', ''click''),
      (''submit'', ''click''),
      (''checkvisibility'', ''assertVisible''),
      (''verifyvisible'', ''assertVisible''),
      (''verifyinvisible'', ''assertNotVisible''),
      (''hidecheck'', ''assertNotVisible''),
      (''reloadpage'', ''reload''),
      (''refresh'', ''reload''),
      (''clearcache'', ''clearCache''),
      (''waitvisible'', ''waitForVisible''),
      (''waithidden'', ''waitForHidden'')]"

text \<open>The keys of \<^verbatim>\<open>Object.prototype\<close> that survive lower-casing, whose values are
  objects.\<close>

definition inheritedKeys :: "string list" where
  "inheritedKeys = [''constructor'', ''__proto__'']"

definition aliasLookup :: "string \<Rightarrow> action_val option" where
  "aliasLookup k =
     (case map_of aliasMap k of
        Some v \<Rightarrow> Some (Str v)
      | None \<Rightarrow> if k \<in> set inheritedKeys then Some (ProtoObj k) else None)"

definition aliasNormalizer :: ActionNormalizer where
  "aliasNormalizer raw =
     (case action raw of
        ProtoObj k \<Rightarrow> Inl TypeError
      | Str a \<Rightarrow>
          (let norm = filter (\<lambda>c. \<not> isSpace c) (toLowerCase a)
           in if norm \<noteq> [] \<and> aliasLookup norm \<noteq> None
              then Inr (Some (raw\<lparr>action := the (aliasLookup norm)\<rparr>))
              else Inr (Some raw)))"

definition selectorTypeNormalizer :: ActionNormalizer where
  "selectorTypeNormalizer raw =
     (if selectorType raw = None
      then Inr (Some (raw\<lparr>selectorType :=
             Some (if \<not> truthy (selector raw) \<or> includesNoSelector (action raw)
                   then SelNone else SelText)\<rparr>))
      else Inr (Some raw))"

definition actionNormalizers :: "ActionNormalizer list" where
  "actionNormalizers = [aliasNormalizer, selectorTypeNormalizer]"

definition selectorValidator :: ActionValidator where
  "selectorValidator act =
     (if \<not> includesNoSelector (action act) \<and> \<not> truthy (selector act)
      then Inl (MissingSelector (action act)) else Inr act)"

definition waitValidator :: ActionValidator where
  "waitValidator act =
     (if action act = Str ''wait'' \<and> (case duration act of None \<Rightarrow> True | Some d \<Rightarrow> d \<le> 0)
      then Inr (act\<lparr>duration := Some 1\<rparr>) else Inr act)"

definition typeTextValidator :: ActionValidator where
  "typeTextValidator act =
     (if action act = Str ''type'' \<and>
         (\<not> truthy (text' act) \<or> trim (the (text' act)) = [])
      then Inl (MissingText (if truthy (selector act) then the (selector act) else []))
      else Inr act)"

definition actionValidators :: "ActionValidator list" where
  "actionValidators = [selectorValidator, waitValidator, typeTextValidator]"

definition baseMapper :: ActionMapper where
  "baseMapper raw = Some (RawLLMAction.extend raw (PilotQAAIAction.fields (action raw)))"

definition actionMappers :: "ActionMapper list" where
  "actionMappers = [baseMapper]"

section \<open>The action pipeline of the engine's round\<close>

text \<open>The three registries, in insertion order; registration appends.\<close>

record registry =
  normalizers :: "ActionNormalizer list"
  validators :: "ActionValidator list"
  mappers :: "ActionMapper list"

definition defaultRegistry :: registry where
  "defaultRegistry =
     \<lparr>normalizers = actionNormalizers, validators = actionValidators, mappers = actionMappers\<rparr>"

fun runNormalizers :: "ActionNormalizer list \<Rightarrow> RawLLMAction option \<Rightarrow> error + RawLLMAction option" where
  "runNormalizers [] cur = Inr cur"
| "runNormalizers (n # ns) None = Inr None"
| "runNormalizers (n # ns) (Some c) =
     (case n c of Inl e \<Rightarrow> Inl e | Inr cur \<Rightarrow> runNormalizers ns cur)"

fun runValidators :: "ActionValidator list \<Rightarrow> RawLLMAction \<Rightarrow> error + RawLLMAction" where
  "runValidators [] cur = Inr cur"
| "runValidators (v # vs) cur =
     (case v cur of Inl e \<Rightarrow> Inl e | Inr cur' \<Rightarrow> runValidators vs cur')"

fun runMappers :: "ActionMapper list \<Rightarrow> RawLLMAction \<Rightarrow> PilotQAAIAction option" where
  "runMappers [] cur = None"
| "runMappers (m # ms) cur = (case m cur of Some c \<Rightarrow> Some c | None \<Rightarrow> runMappers ms cur)"

text \<open>The loop over \<^verbatim>\<open>parsedLLMActions\<close> that fills \<^verbatim>\<open>finalActions\<close>.\<close>

fun planActions :: "registry \<Rightarrow> RawLLMAction list \<Rightarrow> error + PilotQAAIAction list" where
  "planActions reg [] = Inr []"
| "planActions reg (raw # rest) =
     (case runNormalizers (normalizers reg) (Some raw) of
        Inl e \<Rightarrow> Inl e
      | Inr None \<Rightarrow> planActions reg rest
      | Inr (Some cur) \<Rightarrow>
          (case runValidators (validators reg) cur of
             Inl e \<Rightarrow> Inl e
           | Inr cur' \<Rightarrow>
               (let mapped = runMappers (mappers reg) cur'
                in case planActions reg rest of
                     Inl e \<Rightarrow> Inl e
                   | Inr fin \<Rightarrow>
                       Inr (case mapped of None \<Rightarrow> fin | Some m \<Rightarrow> m # fin))))"





section \<open>The engine's dispatch of a wait action\<close>




section \<open>The text normalizer: stripping vague endings\<close>


















section \<open>llm.ts: the gateway with fallback\<close>














section \<open>cache.ts and navigation.ts: the page cache\<close>

record Cache =
  htmlContent :: "string option"
  htmlTimestamp :: int
  llmResponse :: "string option"
  llmCommand :: string
  currentUrl :: string

definition CACHE_DURATION :: int where
  "CACHE_DURATION = 5000"

record NavState =
  currentPageUrl :: string
  navigationCount :: int

text \<open>
  Of the page, the cache logic reads the current URL. The markup that the \<^verbatim>\<open>try\<close> block
  extracts for a container selector is the page's answer \<open>pageHtml\<close>.
\<close>

record Page =
  pageUrl :: string
  pageHtml :: "string option \<Rightarrow> string"

text \<open>\<open>invalidate\<close> is the five assignments that the detector, the reload and the
  cache-clear branches share.\<close>

definition invalidate :: "string \<Rightarrow> Cache \<Rightarrow> Cache" where
  "invalidate newUrl cache =
     cache\<lparr>htmlContent := None, htmlTimestamp := 0, currentUrl := newUrl,
           llmResponse := None, llmCommand := []\<rparr>"

definition detectNavigationChange ::
  "Page \<Rightarrow> NavState \<Rightarrow> bool \<Rightarrow> Cache \<Rightarrow> bool \<times> NavState \<times> Cache" where
  "detectNavigationChange page state useCache cache =
     (let newUrl = pageUrl page
      in if newUrl \<noteq> currentPageUrl state
         then (True,
               state\<lparr>navigationCount := navigationCount state + 1, currentPageUrl := newUrl\<rparr>,
               if useCache then invalidate newUrl cache else cache)
         else (False, state, cache))"

record HtmlResult =
  html :: string
  fromCache :: bool
  cacheAfter :: Cache

text \<open>The chain of replacements that cleans the markup is the parameter \<open>sanitize\<close>; the
  cut at 25000 characters follows it. \<open>now\<close> is \<^verbatim>\<open>Date.now()\<close>.\<close>

definition truncateHtml :: "string \<Rightarrow> string" where
  "truncateHtml cleaned =
     (if length cleaned > 25000
      then take 25000 cleaned @ [CHR 0x0A] @ ''<!-- [HTML truncated] -->''
      else cleaned)"

definition getOptimizedHTML ::
  "(string \<Rightarrow> string) \<Rightarrow> Page \<Rightarrow> string option \<Rightarrow> bool \<Rightarrow> int \<Rightarrow> Cache \<Rightarrow> HtmlResult" where
  "getOptimizedHTML sanitize page containerSelector useCache now cache =
     (let urlChanged = (currentUrl cache \<noteq> pageUrl page)
      in if useCache \<and> \<not> urlChanged \<and> truthy (htmlContent cache)
            \<and> now - htmlTimestamp cache < CACHE_DURATION
         then \<lparr>html = the (htmlContent cache), fromCache = True, cacheAfter = cache\<rparr>
         else
           (let finalHTML = truncateHtml (sanitize (pageHtml page containerSelector))
            in \<lparr>html = finalHTML, fromCache = False,
                 cacheAfter =
                   (if useCache
                    then cache\<lparr>htmlContent := Some finalHTML, htmlTimestamp := now,
                               currentUrl := pageUrl page\<rparr>
                    else cache)\<rparr>))"

section \<open>The locator resolver\<close>

text \<open>
  \<open>p\<close> in \<^verbatim>\<open>makeIn(p)\<close> is the page or one of its frames. A locator is built from a selector
  string in one of them (\<open>None\<close> when the selector passed is \<^verbatim>\<open>undefined\<close>), narrowed by
  \<^verbatim>\<open>first()\<close>, or produced by the text strategies, which are the environment's here.
\<close>

datatype frameRef = MainPage | Frame nat

datatype locator =
    Locator frameRef "string option"
  | First locator
  | TextMatch frameRef nat

record PageEnv =
  frames :: "frameRef list"
  locCount :: "locator \<Rightarrow> nat option"
  textStrategy :: "frameRef \<Rightarrow> PilotQAAIAction \<Rightarrow> locator option option"

text \<open>\<open>makeIn\<close>: the outer \<open>None\<close> is a rejected promise. \<open>locCount\<close> is \<^verbatim>\<open>loc.count()\<close>,
  \<open>None\<close> when it throws.\<close>

definition makeIn :: "PageEnv \<Rightarrow> PilotQAAIAction \<Rightarrow> frameRef \<Rightarrow> locator option option" where
  "makeIn env act p =
     (case selectorType act of
        Some SelCss \<Rightarrow> Some (Some (Locator p (selector act)))
      | Some SelXpath \<Rightarrow>
          Some (Some (Locator p
            (Some (''xpath='' @ (case selector act of None \<Rightarrow> ''undefined'' | Some s \<Rightarrow> s)))))
      | Some SelText \<Rightarrow> textStrategy env p act
      | _ \<Rightarrow> None)"

definition tryIn :: "PageEnv \<Rightarrow> PilotQAAIAction \<Rightarrow> frameRef \<Rightarrow> locator option" where
  "tryIn env act p =
     (case makeIn env act p of
        Some (Some loc) \<Rightarrow>
          (case locCount env loc of
             Some c \<Rightarrow> if c > 0 then Some (First loc) else None
           | None \<Rightarrow> None)
      | _ \<Rightarrow> None)"

fun scanFrames :: "PageEnv \<Rightarrow> PilotQAAIAction \<Rightarrow> frameRef list \<Rightarrow> locator option" where
  "scanFrames env act [] = None"
| "scanFrames env act (f # fs) =
     (case tryIn env act f of Some loc \<Rightarrow> Some loc | None \<Rightarrow> scanFrames env act fs)"

definition resolveLocator :: "PageEnv \<Rightarrow> PilotQAAIAction \<Rightarrow> locator option" where
  "resolveLocator env act =
     (if selectorType act = Some SelNone then None
      else (case tryIn env act MainPage of
              Some loc \<Rightarrow> Some loc
            | None \<Rightarrow> scanFrames env act (frames env)))"

section \<open>The engine's main loop and its retries\<close>








section \<open>Notions used to state the properties\<close>



text \<open>The test \<^verbatim>\<open>loc && (await loc.count().then((c) => c > 0))\<close> with the \<^verbatim>\<open>catch\<close> around
  it: a locator matches when its count does not throw and is positive.\<close>

definition matches :: "PageEnv \<Rightarrow> locator \<Rightarrow> bool" where
  "matches env loc = (case locCount env loc of Some c \<Rightarrow> 0 < c | None \<Rightarrow> False)"



section \<open>Lemmas about records and the default chains\<close>

lemma startsWith_single: "startsWith [c] s = (s \<noteq> [] \<and> hd s = c)"
  by (cases s) (auto simp: startsWith_def)

lemma inferSelectorType_matches_spec: "inferSelectorType s = selectorKindSpec s"
  by (cases s) (auto simp: inferSelectorType_def selectorKindSpec_def startsWith_single startsWith_def)

lemma runMappers_default:
  "runMappers actionMappers cur = Some (RawLLMAction.extend cur (PilotQAAIAction.fields (action cur)))"
  by (simp add: actionMappers_def baseMapper_def)

lemma extend_truncate:
  "RawLLMAction.truncate (RawLLMAction.extend cur (PilotQAAIAction.fields x)) = cur"
  by (cases cur) (simp add: RawLLMAction.defs PilotQAAIAction.defs)

lemma extend_normalizedAction:
  "normalizedAction (RawLLMAction.extend cur (PilotQAAIAction.fields x)) = x"
  by (cases cur) (simp add: RawLLMAction.defs PilotQAAIAction.defs)

lemma extend_fields:
  "action (RawLLMAction.extend cur (PilotQAAIAction.fields x)) = action cur"
  "selector (RawLLMAction.extend cur (PilotQAAIAction.fields x)) = selector cur"
  "selectorType (RawLLMAction.extend cur (PilotQAAIAction.fields x)) = selectorType cur"
  "duration (RawLLMAction.extend cur (PilotQAAIAction.fields x)) = duration cur"
  "text' (RawLLMAction.extend cur (PilotQAAIAction.fields x)) = text' cur"
  by (cases cur; simp add: RawLLMAction.defs PilotQAAIAction.defs)+

lemma aliasNormalizer_cases:
  "aliasNormalizer raw = Inl TypeError \<or> (\<exists>a. aliasNormalizer raw = Inr (Some (raw\<lparr>action := a\<rparr>)))"
proof (cases "action raw")
  case (Str x)
  have eq: "raw\<lparr>action := Str x\<rparr> = raw" using Str by (cases raw) simp
  let ?norm = "filter (\<lambda>c. \<not> isSpace c) (toLowerCase x)"
  show ?thesis
  proof (cases "?norm \<noteq> [] \<and> aliasLookup ?norm \<noteq> None")
    case True
    then have "aliasNormalizer raw = Inr (Some (raw\<lparr>action := the (aliasLookup ?norm)\<rparr>))"
      using Str by (simp add: aliasNormalizer_def Let_def)
    then show ?thesis by blast
  next
    case False
    then have "aliasNormalizer raw = Inr (Some (raw\<lparr>action := Str x\<rparr>))"
      using Str eq by (auto simp: aliasNormalizer_def Let_def)
    then show ?thesis by blast
  qed
next
  case (ProtoObj k)
  then show ?thesis by (simp add: aliasNormalizer_def)
qed

lemma runNormalizers_default_not_veto:
  "runNormalizers actionNormalizers (Some raw) \<noteq> Inr None"
  using aliasNormalizer_cases[of raw]
  by (auto simp: actionNormalizers_def selectorTypeNormalizer_def split: if_splits)

lemma planActions_default_length:
  "planActions defaultRegistry raws = Inr fin \<Longrightarrow> length fin = length raws"
proof (induction raws arbitrary: fin)
  case Nil
  then show ?case by simp
next
  case (Cons raw rest)
  then show ?case
    using runNormalizers_default_not_veto[of raw]
    by (auto simp: defaultRegistry_def runMappers_default Let_def split: sum.splits option.splits)
qed

lemma plan_press_example:
  "planActions defaultRegistry
     [\<lparr>action = Str ''Press'', selector = Some ''#go'', selectorType = Some SelCss, timeout = None,
       duration = None, text' = None, expectedContent = None, reason = None, url = None,
       pattern = None\<rparr>]
   = Inr [\<lparr>action = Str ''click'', selector = Some ''#go'', selectorType = Some SelCss, timeout = None,
       duration = None, text' = None, expectedContent = None, reason = None, url = None,
       pattern = None, normalizedAction = Str ''click''\<rparr>]"
  by code_simp

section \<open>Selector-kind inference\<close>

text \<open>
  C2. When the parsed action carries no selector kind, \<open>coerceSelectorType\<close> sets it from
  the selector string alone (the empty string when the selector is absent): the empty
  string gives none, a string starting with \<^verbatim>\<open>xpath=\<close> or \<^verbatim>\<open>//\<close> gives xpath, one starting
  with a dot, hash, opening bracket or colon gives css, and every other string gives text.
  The right-hand side is \<open>selectorKindSpec\<close>, the function worded as the specification
  words it.
\<close>

theorem coerceSelectorType_infers_kind:
  "selectorType a = None \<Longrightarrow>
   selectorType (coerceSelectorType a) =
     Some (selectorKindSpec (case selector a of None \<Rightarrow> [] | Some s \<Rightarrow> s))"
  by (cases "selector a")
    (auto simp: coerceSelectorType_def truthy_def inferSelectorType_matches_spec Let_def)

theorem coerceSelectorType_infers_kind_witness:
  "selectorType (coerceSelectorType
      \<lparr>action = Str ''click'', selector = Some ''//a[1]'', selectorType = None, timeout = None,
       duration = None, text' = None, expectedContent = None, reason = None, url = None,
       pattern = None\<rparr>) = Some SelXpath
   \<and> selectorType (coerceSelectorType
      \<lparr>action = Str ''click'', selector = Some ''#go'', selectorType = None, timeout = None,
       duration = None, text' = None, expectedContent = None, reason = None, url = None,
       pattern = None\<rparr>) = Some SelCss
   \<and> selectorType (coerceSelectorType
      \<lparr>action = Str ''click'', selector = Some ''Login'', selectorType = None, timeout = None,
       duration = None, text' = None, expectedContent = None, reason = None, url = None,
       pattern = None\<rparr>) = Some SelText
   \<and> selectorType (coerceSelectorType
      \<lparr>action = Str ''reload'', selector = None, selectorType = None, timeout = None,
       duration = None, text' = None, expectedContent = None, reason = None, url = None,
       pattern = None\<rparr>) = Some SelNone"
  using coerceSelectorType_infers_kind [of
      "\<lparr>action = Str ''click'', selector = Some ''//a[1]'', selectorType = None, timeout = None,
       duration = None, text' = None, expectedContent = None, reason = None, url = None,
       pattern = None\<rparr>"]
    coerceSelectorType_infers_kind [of
      "\<lparr>action = Str ''click'', selector = Some ''#go'', selectorType = None, timeout = None,
       duration = None, text' = None, expectedContent = None, reason = None, url = None,
       pattern = None\<rparr>"]
    coerceSelectorType_infers_kind [of
      "\<lparr>action = Str ''click'', selector = Some ''Login'', selectorType = None, timeout = None,
       duration = None, text' = None, expectedContent = None, reason = None, url = None,
       pattern = None\<rparr>"]
    coerceSelectorType_infers_kind [of
      "\<lparr>action = Str ''reload'', selector = None, selectorType = None, timeout = None,
       duration = None, text' = None, expectedContent = None, reason = None, url = None,
       pattern = None\<rparr>"]
  by (simp add: selectorKindSpec_def startsWith_def)

section \<open>The validator chain on wait actions\<close>

text \<open>
  C9. For a raw action of kind wait whose duration is absent or at most 0, the default
  validator chain raises nothing and returns the action with its duration set to 1 and
  every other field as it was.
\<close>

theorem validators_coerce_wait_duration:
  "action a = Str ''wait'' \<Longrightarrow> (case duration a of None \<Rightarrow> True | Some d \<Rightarrow> d \<le> 0) \<Longrightarrow>
   runValidators actionValidators a = Inr (a\<lparr>duration := Some 1\<rparr>)"
  by (auto simp: actionValidators_def selectorValidator_def waitValidator_def typeTextValidator_def
       includesNoSelector_def noSelector_def)

theorem validators_coerce_wait_duration_witness:
  "runValidators actionValidators
     \<lparr>action = Str ''wait'', selector = None, selectorType = Some SelNone, timeout = None,
       duration = Some (- 3), text' = None, expectedContent = None, reason = None, url = None,
       pattern = None\<rparr>
   = Inr \<lparr>action = Str ''wait'', selector = None, selectorType = Some SelNone, timeout = None,
       duration = Some 1, text' = None, expectedContent = None, reason = None, url = None,
       pattern = None\<rparr>
   \<and> runValidators actionValidators
     \<lparr>action = Str ''wait'', selector = None, selectorType = Some SelNone, timeout = None,
       duration = None, text' = None, expectedContent = None, reason = None, url = None,
       pattern = None\<rparr>
   = Inr \<lparr>action = Str ''wait'', selector = None, selectorType = Some SelNone, timeout = None,
       duration = Some 1, text' = None, expectedContent = None, reason = None, url = None,
       pattern = None\<rparr>"
  using validators_coerce_wait_duration [of
     "\<lparr>action = Str ''wait'', selector = None, selectorType = Some SelNone, timeout = None,
       duration = Some (- 3), text' = None, expectedContent = None, reason = None, url = None,
       pattern = None\<rparr>"]
   validators_coerce_wait_duration [of
     "\<lparr>action = Str ''wait'', selector = None, selectorType = Some SelNone, timeout = None,
       duration = None, text' = None, expectedContent = None, reason = None, url = None,
       pattern = None\<rparr>"]
  by simp

section \<open>The mapping stage with the default registry\<close>

text \<open>
  C10. With the default registry the mapper chain accepts every raw action: it returns an
  executable action whose \<open>normalizedAction\<close> equals its \<open>action\<close> and whose other fields
  are those of the raw action. So the loop that fills the final list drops nothing: when it
  returns a list, that list has one executable action for each raw action it was given.
\<close>

theorem default_mapping_total:
  "(\<exists>m. runMappers (mappers defaultRegistry) cur = Some m
        \<and> normalizedAction m = action m \<and> RawLLMAction.truncate m = cur)
   \<and> (planActions defaultRegistry raws = Inr fin \<longrightarrow> length fin = length raws)"
  by (simp add: defaultRegistry_def runMappers_default extend_truncate extend_normalizedAction
        extend_fields planActions_default_length[unfolded defaultRegistry_def])

theorem default_mapping_total_witness:
  "(\<exists>m. runMappers (mappers defaultRegistry)
       \<lparr>action = Str ''click'', selector = Some ''#go'', selectorType = Some SelCss, timeout = None,
       duration = None, text' = None, expectedContent = None, reason = None, url = None,
       pattern = None\<rparr> = Some m
        \<and> normalizedAction m = action m \<and> RawLLMAction.truncate m =
       \<lparr>action = Str ''click'', selector = Some ''#go'', selectorType = Some SelCss, timeout = None,
       duration = None, text' = None, expectedContent = None, reason = None, url = None,
       pattern = None\<rparr>)
   \<and> planActions defaultRegistry
     [\<lparr>action = Str ''Press'', selector = Some ''#go'', selectorType = Some SelCss, timeout = None,
       duration = None, text' = None, expectedContent = None, reason = None, url = None,
       pattern = None\<rparr>]
   = Inr [\<lparr>action = Str ''click'', selector = Some ''#go'', selectorType = Some SelCss, timeout = None,
       duration = None, text' = None, expectedContent = None, reason = None, url = None,
       pattern = None, normalizedAction = Str ''click''\<rparr>]
   \<and> length [\<lparr>action = Str ''click'', selector = Some ''#go'', selectorType = Some SelCss, timeout = None,
       duration = None, text' = None, expectedContent = None, reason = None, url = None,
       pattern = None, normalizedAction = Str ''click''\<rparr>] = length
     [\<lparr>action = Str ''Press'', selector = Some ''#go'', selectorType = Some SelCss, timeout = None,
       duration = None, text' = None, expectedContent = None, reason = None, url = None,
       pattern = None\<rparr>]"
  using plan_press_example default_mapping_total [of
       "\<lparr>action = Str ''click'', selector = Some ''#go'', selectorType = Some SelCss, timeout = None,
       duration = None, text' = None, expectedContent = None, reason = None, url = None,
       pattern = None\<rparr>"
     "[\<lparr>action = Str ''Press'', selector = Some ''#go'', selectorType = Some SelCss, timeout = None,
       duration = None, text' = None, expectedContent = None, reason = None, url = None,
       pattern = None\<rparr>]"
     "[\<lparr>action = Str ''click'', selector = Some ''#go'', selectorType = Some SelCss, timeout = None,
       duration = None, text' = None, expectedContent = None, reason = None, url = None,
       pattern = None, normalizedAction = Str ''click''\<rparr>]"]
  by simp

section \<open>Lemmas about the schema and the pipeline\<close>



















section \<open>What the action pipeline guarantees about selectors and typed text\<close>




section \<open>The pause of a wait action\<close>




section \<open>The gateway tries the candidates in order\<close>






section \<open>The page cache and navigation\<close>

text \<open>
  C5. \<open>getOptimizedHTML\<close> answers from the cache only when caching is on, the cache's URL
  is the page's current URL, cached markup is present and the cache is younger than
  5000 ms, and then it returns that markup. When the two URLs differ it recomputes the
  excerpt from the page, whatever the cache's age. After the navigation detector (with
  caching on) has seen the URL change, the cached markup is gone, and the next call, for
  any page, time and flag, recomputes the excerpt.
\<close>

theorem cache_hit_conditions:
  "(fromCache (getOptimizedHTML sanitize page containerSelector useCache now cache) \<longrightarrow>
       useCache \<and> currentUrl cache = pageUrl page \<and> truthy (htmlContent cache)
       \<and> now - htmlTimestamp cache < 5000
       \<and> htmlContent cache = Some (html (getOptimizedHTML sanitize page containerSelector useCache now cache)))
   \<and> (currentUrl cache \<noteq> pageUrl page \<longrightarrow>
       \<not> fromCache (getOptimizedHTML sanitize page containerSelector useCache now cache)
       \<and> html (getOptimizedHTML sanitize page containerSelector useCache now cache)
           = truncateHtml (sanitize (pageHtml page containerSelector)))
   \<and> (pageUrl page \<noteq> currentPageUrl state \<longrightarrow>
       fst (detectNavigationChange page state True cache)
       \<and> htmlContent (snd (snd (detectNavigationChange page state True cache))) = None
       \<and> \<not> fromCache (getOptimizedHTML sanitize page' containerSelector' useCache' now'
                          (snd (snd (detectNavigationChange page state True cache))))
       \<and> html (getOptimizedHTML sanitize page' containerSelector' useCache' now'
                          (snd (snd (detectNavigationChange page state True cache))))
           = truncateHtml (sanitize (pageHtml page' containerSelector')))"
  by (auto simp: getOptimizedHTML_def detectNavigationChange_def invalidate_def Let_def
      CACHE_DURATION_def truthy_def split: option.splits)

lemma cache_example_evaluation:
  "getOptimizedHTML (\<lambda>x. x) \<lparr>pageUrl = ''https://a/'', pageHtml = (\<lambda>c. ''<p>new</p>'')\<rparr> None True 3000
       \<lparr>htmlContent = Some ''<p>old</p>'', htmlTimestamp = 1000, llmResponse = None,
        llmCommand = [], currentUrl = ''https://a/''\<rparr>
   = \<lparr>html = ''<p>old</p>'', fromCache = True, cacheAfter =
       \<lparr>htmlContent = Some ''<p>old</p>'', htmlTimestamp = 1000, llmResponse = None,
        llmCommand = [], currentUrl = ''https://a/''\<rparr>\<rparr>
   \<and> pageUrl \<lparr>pageUrl = ''https://b/'', pageHtml = (\<lambda>c. ''<p>new</p>'')\<rparr> \<noteq> ''https://a/''
   \<and> truncateHtml ''<p>new</p>'' = ''<p>new</p>''"
  by code_simp

theorem cache_hit_conditions_witness:
  "html (getOptimizedHTML (\<lambda>x. x) \<lparr>pageUrl = ''https://a/'', pageHtml = (\<lambda>c. ''<p>new</p>'')\<rparr> None True 3000
       \<lparr>htmlContent = Some ''<p>old</p>'', htmlTimestamp = 1000, llmResponse = None,
        llmCommand = [], currentUrl = ''https://a/''\<rparr>) = ''<p>old</p>''
   \<and> html (getOptimizedHTML (\<lambda>x. x) \<lparr>pageUrl = ''https://b/'', pageHtml = (\<lambda>c. ''<p>new</p>'')\<rparr> None True 3000
       \<lparr>htmlContent = Some ''<p>old</p>'', htmlTimestamp = 1000, llmResponse = None,
        llmCommand = [], currentUrl = ''https://a/''\<rparr>) = ''<p>new</p>''
   \<and> html (getOptimizedHTML (\<lambda>x. x) \<lparr>pageUrl = ''https://b/'', pageHtml = (\<lambda>c. ''<p>new</p>'')\<rparr> None True 3000
       (snd (snd (detectNavigationChange \<lparr>pageUrl = ''https://b/'', pageHtml = (\<lambda>c. ''<p>new</p>'')\<rparr>
          \<lparr>currentPageUrl = ''https://a/'', navigationCount = 0\<rparr> True
       \<lparr>htmlContent = Some ''<p>old</p>'', htmlTimestamp = 1000, llmResponse = None,
        llmCommand = [], currentUrl = ''https://a/''\<rparr>)))) = ''<p>new</p>''"
  using cache_example_evaluation
    cache_hit_conditions [of "\<lambda>x. x" "\<lparr>pageUrl = ''https://a/'', pageHtml = (\<lambda>c. ''<p>new</p>'')\<rparr>" None True 3000
       "\<lparr>htmlContent = Some ''<p>old</p>'', htmlTimestamp = 1000, llmResponse = None,
        llmCommand = [], currentUrl = ''https://a/''\<rparr>"]
    cache_hit_conditions [of "\<lambda>x. x" "\<lparr>pageUrl = ''https://b/'', pageHtml = (\<lambda>c. ''<p>new</p>'')\<rparr>" None True 3000
       "\<lparr>htmlContent = Some ''<p>old</p>'', htmlTimestamp = 1000, llmResponse = None,
        llmCommand = [], currentUrl = ''https://a/''\<rparr>"
       "\<lparr>currentPageUrl = ''https://a/'', navigationCount = 0\<rparr>"
       "\<lparr>pageUrl = ''https://b/'', pageHtml = (\<lambda>c. ''<p>new</p>'')\<rparr>" None True 3000]
  by simp

section \<open>Resolving css and xpath selectors\<close>

lemma scanFrames_direct:
  assumes "\<And>p. tryIn env act p = (if matches env (L p) then Some (First (L p)) else None)"
  shows "scanFrames env act fs = map_option (\<lambda>p. First (L p)) (find (\<lambda>p. matches env (L p)) fs)"
  by (induction fs) (simp_all add: assms)

lemma resolveLocator_via:
  assumes "selectorType act \<noteq> Some SelNone"
    and "\<And>p. tryIn env act p = (if matches env (L p) then Some (First (L p)) else None)"
  shows "resolveLocator env act =
           map_option (\<lambda>p. First (L p)) (find (\<lambda>p. matches env (L p)) (MainPage # frames env))"
  using assms(1) by (simp add: resolveLocator_def assms(2) scanFrames_direct[OF assms(2)])

text \<open>
  C7, as the code has it. For selector kind none the resolver returns null. For css it
  builds the locator from the selector as it is, and for xpath (a selector written without
  a \<^verbatim>\<open>xpath=\<close> prefix of its own) from the selector with \<^verbatim>\<open>xpath=\<close> put in front; it tries the page and then the frames in order, and returns the
  first match (\<^verbatim>\<open>first()\<close>) of the locator in the first of them where the locator's count is
  positive, and null when there is none. No other strategy is tried for these two kinds.
\<close>

theorem resolveLocator_direct:
  "(selectorType act = Some SelNone \<longrightarrow> resolveLocator env act = None)
   \<and> (selectorType act = Some SelCss \<longrightarrow>
        resolveLocator env act =
          map_option (\<lambda>p. First (Locator p (selector act)))
            (find (\<lambda>p. matches env (Locator p (selector act))) (MainPage # frames env)))
   \<and> (selectorType act = Some SelXpath \<and> selector act = Some s
        \<and> \<not> startsWith ''xpath='' s \<longrightarrow>
        resolveLocator env act =
          map_option (\<lambda>p. First (Locator p (Some (''xpath='' @ s))))
            (find (\<lambda>p. matches env (Locator p (Some (''xpath='' @ s)))) (MainPage # frames env)))"
proof (intro conjI impI)
  assume "selectorType act = Some SelNone"
  then show "resolveLocator env act = None" by (simp add: resolveLocator_def)
next
  assume h: "selectorType act = Some SelCss"
  have "tryIn env act p = (if matches env (Locator p (selector act))
                         then Some (First (Locator p (selector act))) else None)" for p
    using h by (auto simp: tryIn_def makeIn_def matches_def split: option.splits)
  then show "resolveLocator env act =
          map_option (\<lambda>p. First (Locator p (selector act)))
            (find (\<lambda>p. matches env (Locator p (selector act))) (MainPage # frames env))"
    using h resolveLocator_via[of act env "\<lambda>p. Locator p (selector act)"] by simp
next
  assume h: "selectorType act = Some SelXpath \<and> selector act = Some s
        \<and> \<not> startsWith ''xpath='' s"
  have "tryIn env act p = (if matches env (Locator p (Some (''xpath='' @ s)))
                         then Some (First (Locator p (Some (''xpath='' @ s)))) else None)" for p
    using h by (auto simp: tryIn_def makeIn_def matches_def split: option.splits)
  then show "resolveLocator env act =
          map_option (\<lambda>p. First (Locator p (Some (''xpath='' @ s))))
            (find (\<lambda>p. matches env (Locator p (Some (''xpath='' @ s)))) (MainPage # frames env))"
    using h resolveLocator_via[of act env "\<lambda>p. Locator p (Some (''xpath='' @ s))"] by simp
qed

theorem resolveLocator_direct_witness:
  "resolveLocator
       \<lparr>frames = [MainPage, Frame 1],
        locCount = (\<lambda>loc. if loc = Locator (Frame 1) (Some ''#go'') then Some 2
                          else if loc = Locator MainPage (Some ''xpath=//a'') then Some 1
                          else Some 0),
        textStrategy = (\<lambda>p a. Some None)\<rparr>
       \<lparr>action = Str ''reload'', selector = None, selectorType = Some SelNone,
        timeout = None, duration = None, text' = None, expectedContent = None, reason = None,
        url = None, pattern = None, normalizedAction = Str ''reload''\<rparr> = None
   \<and> resolveLocator
       \<lparr>frames = [MainPage, Frame 1],
        locCount = (\<lambda>loc. if loc = Locator (Frame 1) (Some ''#go'') then Some 2
                          else if loc = Locator MainPage (Some ''xpath=//a'') then Some 1
                          else Some 0),
        textStrategy = (\<lambda>p a. Some None)\<rparr>
       \<lparr>action = Str ''click'', selector = Some ''#go'', selectorType = Some SelCss,
        timeout = None, duration = None, text' = None, expectedContent = None, reason = None,
        url = None, pattern = None, normalizedAction = Str ''click''\<rparr> = Some (First (Locator (Frame 1) (Some ''#go'')))
   \<and> resolveLocator
       \<lparr>frames = [MainPage, Frame 1],
        locCount = (\<lambda>loc. if loc = Locator (Frame 1) (Some ''#go'') then Some 2
                          else if loc = Locator MainPage (Some ''xpath=//a'') then Some 1
                          else Some 0),
        textStrategy = (\<lambda>p a. Some None)\<rparr>
       \<lparr>action = Str ''click'', selector = Some ''//a'', selectorType = Some SelXpath,
        timeout = None, duration = None, text' = None, expectedContent = None, reason = None,
        url = None, pattern = None, normalizedAction = Str ''click''\<rparr> = Some (First (Locator MainPage (Some ''xpath=//a'')))"
  using resolveLocator_direct [of
       "\<lparr>action = Str ''reload'', selector = None, selectorType = Some SelNone,
        timeout = None, duration = None, text' = None, expectedContent = None, reason = None,
        url = None, pattern = None, normalizedAction = Str ''reload''\<rparr>"
       "\<lparr>frames = [MainPage, Frame 1],
        locCount = (\<lambda>loc. if loc = Locator (Frame 1) (Some ''#go'') then Some 2
                          else if loc = Locator MainPage (Some ''xpath=//a'') then Some 1
                          else Some 0),
        textStrategy = (\<lambda>p a. Some None)\<rparr>"]
    resolveLocator_direct [of
       "\<lparr>action = Str ''click'', selector = Some ''#go'', selectorType = Some SelCss,
        timeout = None, duration = None, text' = None, expectedContent = None, reason = None,
        url = None, pattern = None, normalizedAction = Str ''click''\<rparr>"
       "\<lparr>frames = [MainPage, Frame 1],
        locCount = (\<lambda>loc. if loc = Locator (Frame 1) (Some ''#go'') then Some 2
                          else if loc = Locator MainPage (Some ''xpath=//a'') then Some 1
                          else Some 0),
        textStrategy = (\<lambda>p a. Some None)\<rparr>"]
    resolveLocator_direct [of
       "\<lparr>action = Str ''click'', selector = Some ''//a'', selectorType = Some SelXpath,
        timeout = None, duration = None, text' = None, expectedContent = None, reason = None,
        url = None, pattern = None, normalizedAction = Str ''click''\<rparr>"
       "\<lparr>frames = [MainPage, Frame 1],
        locCount = (\<lambda>loc. if loc = Locator (Frame 1) (Some ''#go'') then Some 2
                          else if loc = Locator MainPage (Some ''xpath=//a'') then Some 1
                          else Some 0),
        textStrategy = (\<lambda>p a. Some None)\<rparr>" "''//a''"]
  by (simp add: matches_def startsWith_def)

text \<open>
  The claim as stated fails: for a css selector that matches nothing in the page or its
  frames the resolver returns null, not the locator.
\<close>

theorem resolveLocator_css_no_match_counterexample:
  "resolveLocator \<lparr>frames = [MainPage], locCount = (\<lambda>loc. Some 0), textStrategy = (\<lambda>p a. Some None)\<rparr>
     \<lparr>action = Str ''click'', selector = Some ''#missing'', selectorType = Some SelCss,
      timeout = None, duration = None, text' = None, expectedContent = None, reason = None,
      url = None, pattern = None, normalizedAction = Str ''click''\<rparr> = None"
  by code_simp

section \<open>Lemmas about trimming, quote runs and the ending patterns\<close>
















section \<open>stripVague: one pass over the patterns\<close>





section \<open>Lemmas about the main loop\<close>




section \<open>Retrying a round that raised\<close>



end
